theory Spec2Isabelle
  imports Main "HOL-Library.Sublist"
begin

section \<open>Data model\<close>

text \<open>
  The widget compiler reads values produced by \<^verbatim>\<open>json.loads\<close>.  A JSON value is
  \<^verbatim>\<open>None\<close>, a \<^verbatim>\<open>bool\<close>, a number, a \<^verbatim>\<open>str\<close>, a \<^verbatim>\<open>list\<close> or a \<^verbatim>\<open>dict\<close> with string
  keys.  Numbers are Python's unbounded integers (floating-point numbers are outside this
  development).  A \<^verbatim>\<open>dict\<close> is an association list in insertion order; lookups take the
  entry \<open>map_of\<close> finds.  Strings are lists of 8-bit characters, so lengths agree with
  Python's \<^verbatim>\<open>len\<close> on ASCII text.
\<close>

datatype json =
    JNull
  | JBool bool
  | JNum int
  | JStr string
  | JArr "json list"
  | JObj "(string \<times> json) list"

text \<open>
  The classes of \<^verbatim>\<open>chatkit.widgets\<close> that the two renderers instantiate.  The library is
  not part of the repository: a constructor call \<^verbatim>\<open>Row(gap=2, align="start", children=cs)\<close>
  is recorded as it is written, the class, the keyword arguments other than \<^verbatim>\<open>children\<close>
  in the order of the call, and the children.
\<close>

datatype widget_class =
  Card | Box | Row | Col | Text | Title | Caption | Image | Spacer | Button | DatePicker | Select

datatype widget = Widget widget_class "(string \<times> json) list" "widget list"

fun widget_cls :: "widget \<Rightarrow> widget_class" where
  "widget_cls (Widget c kw cs) = c"

fun kwargs :: "widget \<Rightarrow> (string \<times> json) list" where
  "kwargs (Widget c kw cs) = kw"

fun children :: "widget \<Rightarrow> widget list" where
  "children (Widget c kw cs) = cs"

definition attr :: "widget \<Rightarrow> string \<Rightarrow> json option" where
  "attr w name = map_of (kwargs w) name"

section \<open>Strings\<close>

fun startswith :: "string \<Rightarrow> string \<Rightarrow> bool" where
  "startswith s [] = True"
| "startswith [] (p # ps) = False"
| "startswith (c # cs) (p # ps) = (c = p \<and> startswith cs ps)"

text \<open>\<^verbatim>\<open>needle in haystack\<close> on two \<^verbatim>\<open>str\<close> values.\<close>

fun str_contains :: "string \<Rightarrow> string \<Rightarrow> bool" where
  "str_contains [] needle = (needle = [])"
| "str_contains (c # cs) needle = (startswith (c # cs) needle \<or> str_contains cs needle)"

text \<open>\<^verbatim>\<open>str.lower\<close>, on ASCII letters.\<close>

definition lower_char :: "char \<Rightarrow> char" where
  "lower_char c =
     (let n = (of_char c :: nat) in if 65 \<le> n \<and> n \<le> 90 then char_of (n + 32) else c)"

definition lower :: "string \<Rightarrow> string" where
  "lower s = map lower_char s"

fun join :: "string \<Rightarrow> string list \<Rightarrow> string" where
  "join sep [] = []"
| "join sep [x] = x"
| "join sep (x # y # ys) = x @ sep @ join sep (y # ys)"

definition digit_char :: "nat \<Rightarrow> char" where
  "digit_char d = char_of (48 + d)"

fun str_nat :: "nat \<Rightarrow> string" where
  "str_nat n = (if n < 10 then [digit_char n] else str_nat (n div 10) @ [digit_char (n mod 10)])"

declare str_nat.simps [simp del]

text \<open>\<^verbatim>\<open>str(i)\<close> for a Python integer.\<close>

definition str_int :: "int \<Rightarrow> string" where
  "str_int i = (if i < 0 then CHR ''-'' # str_nat (nat (- i)) else str_nat (nat i))"

definition hex_digit :: "nat \<Rightarrow> char" where
  "hex_digit d = (if d < 10 then char_of (48 + d) else char_of (87 + d))"

section \<open>Python operations on JSON values\<close>

text \<open>
  The exceptions the compiler can raise on a value of the wrong kind, each with the name of
  the offending Python type: iterating a value that is not iterable, calling \<^verbatim>\<open>.get\<close> on a
  value that is not a \<^verbatim>\<open>dict\<close>, and hashing a \<^verbatim>\<open>list\<close> or \<^verbatim>\<open>dict\<close> for a set or
  dictionary lookup.
\<close>

datatype error =
    NotIterable string
  | NoAttribute string string
  | Unhashable string

fun type_name :: "json \<Rightarrow> string" where
  "type_name JNull = ''NoneType''"
| "type_name (JBool b) = ''bool''"
| "type_name (JNum n) = ''int''"
| "type_name (JStr s) = ''str''"
| "type_name (JArr xs) = ''list''"
| "type_name (JObj fs) = ''dict''"

text \<open>\<^verbatim>\<open>str(e)\<close>, with the wording of CPython 3.8 to 3.13.\<close>

fun str_error :: "error \<Rightarrow> string" where
  "str_error (NotIterable t) = [CHR 0x27] @ t @ [CHR 0x27] @ '' object is not iterable''"
| "str_error (NoAttribute t a) =
     [CHR 0x27] @ t @ [CHR 0x27] @ '' object has no attribute '' @ [CHR 0x27] @ a @ [CHR 0x27]"
| "str_error (Unhashable t) = ''unhashable type: '' @ [CHR 0x27] @ t @ [CHR 0x27]"

text \<open>\<^verbatim>\<open>repr\<close> of a \<^verbatim>\<open>str\<close>, and \<^verbatim>\<open>repr\<close> and \<^verbatim>\<open>str\<close> of a JSON value.\<close>

definition repr_char :: "char \<Rightarrow> char \<Rightarrow> string" where
  "repr_char q c =
     (let n = (of_char c :: nat) in
      if c = q \<or> c = CHR 0x5C then [CHR 0x5C, c]
      else if c = CHR 0x0A then [CHR 0x5C, CHR ''n'']
      else if c = CHR 0x0D then [CHR 0x5C, CHR ''r'']
      else if c = CHR 0x09 then [CHR 0x5C, CHR ''t'']
      else if n < 32 \<or> n = 127 then [CHR 0x5C, CHR ''x'', hex_digit (n div 16), hex_digit (n mod 16)]
      else [c])"

definition repr_str :: "string \<Rightarrow> string" where
  "repr_str s =
     (let q = (if CHR 0x27 \<in> set s \<and> CHR 0x22 \<notin> set s then CHR 0x22 else CHR 0x27)
      in [q] @ concat (map (repr_char q) s) @ [q])"

fun py_repr :: "json \<Rightarrow> string" where
  "py_repr JNull = ''None''"
| "py_repr (JBool b) = (if b then ''True'' else ''False'')"
| "py_repr (JNum n) = str_int n"
| "py_repr (JStr s) = repr_str s"
| "py_repr (JArr xs) = ''['' @ join '', '' (map py_repr xs) @ '']''"
| "py_repr (JObj fs) =
     ''{'' @ join '', '' (map (\<lambda>(k, v). repr_str k @ '': '' @ py_repr v) fs) @ ''}''"

fun py_str :: "json \<Rightarrow> string" where
  "py_str (JStr s) = s"
| "py_str v = py_repr v"

text \<open>Truth value of a JSON value (\<^verbatim>\<open>not value\<close>, \<^verbatim>\<open>if value\<close>).\<close>

fun truthy :: "json \<Rightarrow> bool" where
  "truthy JNull = False"
| "truthy (JBool b) = b"
| "truthy (JNum n) = (n \<noteq> 0)"
| "truthy (JStr s) = (s \<noteq> [])"
| "truthy (JArr xs) = (xs \<noteq> [])"
| "truthy (JObj fs) = (fs \<noteq> [])"

text \<open>
  \<^verbatim>\<open>for x in value\<close>: a list yields its elements, a string its characters as
  one-character strings, a dict its keys; anything else raises \<^verbatim>\<open>TypeError\<close>.
\<close>

fun py_iter :: "json \<Rightarrow> error + json list" where
  "py_iter (JArr xs) = Inr xs"
| "py_iter (JStr s) = Inr (map (\<lambda>c. JStr [c]) s)"
| "py_iter (JObj fs) = Inr (map (\<lambda>(k, v). JStr k) fs)"
| "py_iter v = Inl (NotIterable (type_name v))"

fun hashable :: "json \<Rightarrow> bool" where
  "hashable (JArr xs) = False"
| "hashable (JObj fs) = False"
| "hashable v = True"

text \<open>\<^verbatim>\<open>key in d\<close>, \<^verbatim>\<open>d.get(key, default)\<close> and \<^verbatim>\<open>d.get(key)\<close> on a dict \<open>d\<close>.\<close>

definition has_key :: "(string \<times> json) list \<Rightarrow> string \<Rightarrow> bool" where
  "has_key d k = (map_of d k \<noteq> None)"

definition get_or :: "(string \<times> json) list \<Rightarrow> string \<Rightarrow> json \<Rightarrow> json" where
  "get_or d k dflt = (case map_of d k of Some v \<Rightarrow> v | None \<Rightarrow> dflt)"

text \<open>
  \<^verbatim>\<open>value.get(key, default)\<close> on a value that need not be a dict: \<^verbatim>\<open>AttributeError\<close>
  when it is not.
\<close>

definition py_get :: "json \<Rightarrow> string \<Rightarrow> json \<Rightarrow> error + json" where
  "py_get v k dflt =
     (case v of JObj d \<Rightarrow> Inr (get_or d k dflt) | _ \<Rightarrow> Inl (NoAttribute (type_name v) ''get''))"

text \<open>
  \<^verbatim>\<open>value in S\<close> for a set \<open>S\<close> of strings and \<^verbatim>\<open>m.get(value, default)\<close> for a dict \<open>m\<close> from
  strings to strings: both hash the value first.
\<close>

definition set_contains :: "string list \<Rightarrow> json \<Rightarrow> error + bool" where
  "set_contains S v =
     (if hashable v then Inr (v \<in> set (map JStr S)) else Inl (Unhashable (type_name v)))"

definition dict_get :: "(string \<times> string) list \<Rightarrow> json \<Rightarrow> string \<Rightarrow> error + string" where
  "dict_get m v dflt =
     (if hashable v
      then Inr (case v of
                  JStr s \<Rightarrow> (case map_of m s of Some t \<Rightarrow> t | None \<Rightarrow> dflt)
                | _ \<Rightarrow> dflt)
      else Inl (Unhashable (type_name v)))"

text \<open>
  The repeated \<^verbatim>\<open>if name in spec: kwargs[name] = spec[name]\<close>, for the names in the order
  the source tests them.
\<close>

definition copy_present :: "(string \<times> json) list \<Rightarrow> string list \<Rightarrow> (string \<times> json) list" where
  "copy_present spec names =
     concat (map (\<lambda>name. case map_of spec name of Some v \<Rightarrow> [(name, v)] | None \<Rightarrow> []) names)"

section \<open>\<^verbatim>\<open>json.dumps(value, indent=2, ensure_ascii=False)\<close>\<close>





section \<open>The ChatKit widget renderer (app/chatkit\_widget\_renderer.py)\<close>

record ChatKitWidgetData =
  title :: string
  widget_spec :: json
  key :: string

definition VALID_COLORS :: "string list" where
  "VALID_COLORS =
     [''primary'', ''secondary'', ''tertiary'', ''success'', ''warning'', ''error'',
      ''accent'', ''muted'', ''inherit'']"

definition color_mapping :: "(string \<times> string) list" where
  "color_mapping =
     [(''default'', ''primary''), (''normal'', ''primary''), (''text'', ''primary''),
      (''label'', ''primary''), (''disabled'', ''muted''), (''danger'', ''error''),
      (''info'', ''accent'')]"

definition parse_text :: "(string \<times> json) list \<Rightarrow> error + widget" where
  "parse_text spec =
     (let val0 = get_or spec ''value'' (JStr []) in
      case (case map_of spec ''editable'' of
              Some editable \<Rightarrow>
                if \<not> truthy val0 then py_get editable ''placeholder'' (JStr ''[Editable text]'')
                else Inr val0
            | None \<Rightarrow> Inr val0) of
        Inl e \<Rightarrow> Inl e
      | Inr val \<Rightarrow>
          (let color = get_or spec ''color'' JNull in
           case (if color = JNull then Inr (JStr ''primary'')
                 else case set_contains VALID_COLORS color of
                        Inl e \<Rightarrow> Inl e
                      | Inr valid \<Rightarrow>
                          if \<not> valid then map_sum id JStr (dict_get color_mapping color ''primary'')
                          else Inr color) of
             Inl e \<Rightarrow> Inl e
           | Inr mapped_color \<Rightarrow>
               Inr (Widget Text
                      ([(''value'', val),
                        (''size'', get_or spec ''size'' (JStr ''md'')),
                        (''weight'', get_or spec ''weight'' (JStr ''normal'')),
                        (''color'', mapped_color)]
                       @ copy_present spec [''width'', ''minLines'']
                       @ (if map_of spec ''style'' = Some (JStr ''italic'')
                          then [(''italic'', JBool True)] else []))
                      [])))"

definition parse_title :: "(string \<times> json) list \<Rightarrow> error + widget" where
  "parse_title spec =
     (let color = get_or spec ''color'' (JStr ''primary'') in
      case set_contains VALID_COLORS color of
        Inl e \<Rightarrow> Inl e
      | Inr valid \<Rightarrow>
          Inr (Widget Title
                 [(''value'', get_or spec ''value'' (JStr [])),
                  (''size'', get_or spec ''size'' (JStr ''lg'')),
                  (''weight'', get_or spec ''weight'' (JStr ''semibold'')),
                  (''color'', if \<not> valid then JStr ''primary'' else color)]
                 []))"

definition VALID_VARIANTS :: "string list" where
  "VALID_VARIANTS = [''solid'', ''soft'', ''outline'', ''ghost'']"

definition variant_mapping :: "(string \<times> string) list" where
  "variant_mapping =
     [(''primary'', ''solid''), (''secondary'', ''outline''), (''tertiary'', ''ghost''),
      (''outline'', ''outline''), (''solid'', ''solid''), (''soft'', ''soft''),
      (''ghost'', ''ghost'')]"

definition parse_button :: "(string \<times> json) list \<Rightarrow> error + widget" where
  "parse_button spec =
     (let variant = get_or spec ''variant'' (JStr ''solid'') in
      case dict_get variant_mapping variant ''solid'' of
        Inl e \<Rightarrow> Inl e
      | Inr mapped \<Rightarrow>
          (let mapped_variant = (if mapped \<notin> set VALID_VARIANTS then ''solid'' else mapped) in
           Inr (Widget Button
                  ([(''label'', get_or spec ''label'' (JStr ''Button'')),
                    (''variant'', JStr mapped_variant),
                    (''size'', get_or spec ''size'' (JStr ''md''))]
                   @ (case map_of spec ''action'' of
                        Some action \<Rightarrow> [(''onClickAction'', action)]
                      | None \<Rightarrow> []))
                  [])))"

text \<open>ChatKit has no Divider: a padded Box around a Box one unit high.\<close>

definition parse_divider :: "(string \<times> json) list \<Rightarrow> widget" where
  "parse_divider spec =
     Widget Box [(''padding'', JObj [(''top'', JNum 2), (''bottom'', JNum 2)])]
       [Widget Box
          [(''height'', JNum 1), (''background'', JStr ''surface-tertiary''),
           (''width'', JStr ''100%'')]
          []]"

definition parse_caption :: "(string \<times> json) list \<Rightarrow> error + widget" where
  "parse_caption spec =
     (let color = get_or spec ''color'' JNull in
      case (if color = JNull then Inr (JStr ''tertiary'')
            else case set_contains VALID_COLORS color of
                   Inl e \<Rightarrow> Inl e
                 | Inr valid \<Rightarrow> Inr (if \<not> valid then JStr ''tertiary'' else color)) of
        Inl e \<Rightarrow> Inl e
      | Inr mapped_color \<Rightarrow>
          Inr (Widget Caption
                 ([(''value'', get_or spec ''value'' (JStr [])),
                   (''color'', mapped_color),
                   (''size'', get_or spec ''size'' (JStr ''sm'')),
                   (''weight'', get_or spec ''weight'' (JStr ''normal''))]
                  @ copy_present spec [''textAlign'', ''truncate'', ''maxLines''])
                 []))"

definition parse_image :: "(string \<times> json) list \<Rightarrow> widget" where
  "parse_image spec =
     Widget Image
       ([(''src'', get_or spec ''src'' (JStr [])),
         (''alt'', get_or spec ''alt'' (JStr ''Image''))]
        @ copy_present spec
            [''fit'', ''position'', ''radius'', ''frame'', ''flush'', ''height'', ''width'',
             ''size'', ''minHeight'', ''minWidth'', ''minSize'', ''maxHeight'', ''maxWidth'',
             ''maxSize'', ''margin'', ''background'', ''aspectRatio'', ''flex''])
       []"

definition parse_spacer :: "(string \<times> json) list \<Rightarrow> widget" where
  "parse_spacer spec = Widget Spacer (copy_present spec [''minSize'']) []"

definition parse_datepicker :: "(string \<times> json) list \<Rightarrow> widget" where
  "parse_datepicker spec =
     Widget DatePicker
       ([(''name'', get_or spec ''name'' (JStr ''date'')),
         (''placeholder'', get_or spec ''placeholder'' (JStr ''Select date''))]
        @ copy_present spec
            [''onChangeAction'', ''defaultValue'', ''min'', ''max'', ''variant'', ''size'',
             ''side'', ''align'', ''pill'', ''block'', ''clearable'', ''disabled''])
       []"

definition parse_select :: "(string \<times> json) list \<Rightarrow> widget" where
  "parse_select spec =
     Widget Select
       ([(''name'', get_or spec ''name'' (JStr ''select'')),
         (''options'', get_or spec ''options'' (JArr [])),
         (''placeholder'', get_or spec ''placeholder'' (JStr ''Select option''))]
        @ copy_present spec
            [''onChangeAction'', ''defaultValue'', ''variant'', ''size'', ''pill'', ''block'',
             ''clearable'', ''disabled''])
       []"

text \<open>
  The two buttons of \<^verbatim>\<open>_parse_card\<close>.  The source builds each from its descriptor with the
  same statements; \<open>default_label\<close> and \<open>variant\<close> are \<^verbatim>\<open>"Cancel"\<close>, \<^verbatim>\<open>"outline"\<close> for
  \<^verbatim>\<open>cancel\<close> and \<^verbatim>\<open>"Confirm"\<close>, \<^verbatim>\<open>"solid"\<close> for \<^verbatim>\<open>confirm\<close>.
\<close>

definition action_button :: "json \<Rightarrow> string \<Rightarrow> string \<Rightarrow> error + widget" where
  "action_button descriptor default_label variant =
     (case descriptor of
        JObj d \<Rightarrow>
          Inr (Widget Button
                 ([(''label'', get_or d ''label'' (JStr default_label)),
                   (''variant'', JStr variant),
                   (''size'', JStr ''sm'')]
                  @ (case map_of d ''action'' of
                       Some action \<Rightarrow> [(''onClickAction'', action)]
                     | None \<Rightarrow> []))
                 [])
      | _ \<Rightarrow> Inl (NoAttribute (type_name descriptor) ''get''))"

text \<open>
  The block ``Handle confirm/cancel buttons'' of \<^verbatim>\<open>_parse_card\<close>: the list it appends to
  the children, empty or one Row.
\<close>

definition button_row :: "(string \<times> json) list \<Rightarrow> error + widget list" where
  "button_row spec =
     (if has_key spec ''confirm'' \<or> has_key spec ''cancel'' then
        case (case map_of spec ''cancel'' of
                Some cancel_spec \<Rightarrow>
                  map_sum id (\<lambda>b. [b]) (action_button cancel_spec ''Cancel'' ''outline'')
              | None \<Rightarrow> Inr []) of
          Inl e \<Rightarrow> Inl e
        | Inr cancel_button \<Rightarrow>
            (case (case map_of spec ''confirm'' of
                     Some confirm_spec \<Rightarrow>
                       map_sum id (\<lambda>b. [b]) (action_button confirm_spec ''Confirm'' ''solid'')
                   | None \<Rightarrow> Inr []) of
               Inl e \<Rightarrow> Inl e
             | Inr confirm_button \<Rightarrow>
                 (let button_row_children = cancel_button @ confirm_button in
                  Inr (if button_row_children \<noteq> []
                       then [Widget Row [(''justify'', JStr ''end''), (''gap'', JNum 2)]
                               button_row_children]
                       else [])))
      else Inr [])"

definition VALID_DIRECTIONS :: "string list" where
  "VALID_DIRECTIONS = [''row'', ''col'']"

definition direction_mapping :: "(string \<times> string) list" where
  "direction_mapping =
     [(''column'', ''col''), (''row'', ''row''), (''col'', ''col''), (''horizontal'', ''row''),
      (''vertical'', ''col'')]"

text \<open>Measures for the termination of the compiler: only dicts are descended into.\<close>

fun specs_weight :: "json list \<Rightarrow> nat" where
  "specs_weight [] = 0"
| "specs_weight (c # cs) = (case c of JObj fs \<Rightarrow> Suc (size c) | _ \<Rightarrow> 0) + specs_weight cs"

definition spec_weight :: "json \<Rightarrow> nat" where
  "spec_weight v = (case v of JObj fs \<Rightarrow> 3 * size v + 2 | _ \<Rightarrow> 0)"

lemma size_map_of_less: "map_of fs k = Some v \<Longrightarrow> size v < size (JObj fs)"
proof -
  have "(k, v) \<in> set fs \<Longrightarrow> size v < Suc (size_list (size_prod (\<lambda>x. 0) size) fs)" for fs
    by (induction fs) auto
  then show "map_of fs k = Some v \<Longrightarrow> size v < size (JObj fs)"
    by (auto dest: map_of_SomeD)
qed

lemma specs_weight_le_size_list: "specs_weight xs \<le> size_list size xs"
  by (induction xs) (auto split: json.splits)

lemma specs_weight_py_iter: "py_iter v = Inr cs \<Longrightarrow> specs_weight cs \<le> size v"
proof (cases v)
  case (JArr xs)
  assume "py_iter v = Inr cs"
  with JArr show ?thesis using specs_weight_le_size_list [of xs] by simp
next
  case (JStr s)
  assume "py_iter v = Inr cs"
  with JStr have "cs = map (\<lambda>c. JStr [c]) s" by simp
  moreover have "specs_weight (map (\<lambda>c. JStr [c]) s) = 0"
    by (induction s) auto
  ultimately show ?thesis by simp
next
  case (JObj fs)
  assume "py_iter v = Inr cs"
  with JObj have "cs = map (\<lambda>(k, v). JStr k) fs" by simp
  moreover have "specs_weight (map (\<lambda>(k, v). JStr k) fs) = 0"
    by (induction fs) auto
  ultimately show ?thesis by simp
qed simp_all

text \<open>
  \<^verbatim>\<open>_parse_widget_component\<close> and the four container parsers it calls, which call it back
  on every child.  The four containers open with the same statements,
  \<^verbatim>\<open>if "children" in spec: for child_spec in spec["children"]: ...\<close>; they are
  \<open>parse_children_of\<close>, and \<open>parse_child_specs\<close> is the loop, which keeps a child unless it
  compiled to \<^verbatim>\<open>None\<close> (\<^verbatim>\<open>if child:\<close> holds for every widget object).  An exception
  anywhere ends the whole compilation.
\<close>

function parse_widget_component :: "json \<Rightarrow> error + widget option"
  and parse_card :: "(string \<times> json) list \<Rightarrow> error + widget"
  and parse_row :: "(string \<times> json) list \<Rightarrow> error + widget"
  and parse_col :: "(string \<times> json) list \<Rightarrow> error + widget"
  and parse_box :: "(string \<times> json) list \<Rightarrow> error + widget"
  and parse_children_of :: "(string \<times> json) list \<Rightarrow> error + widget list"
  and parse_child_specs :: "json list \<Rightarrow> error + widget list"
where
  "parse_widget_component spec =
     (case spec of
        JObj d \<Rightarrow>
          (case map_of d ''type'' of
             None \<Rightarrow> Inr None
           | Some widget_type \<Rightarrow>
               if widget_type = JStr ''Card'' then map_sum id Some (parse_card d)
               else if widget_type = JStr ''Row'' then map_sum id Some (parse_row d)
               else if widget_type = JStr ''Col'' then map_sum id Some (parse_col d)
               else if widget_type = JStr ''Text'' then map_sum id Some (parse_text d)
               else if widget_type = JStr ''Title'' then map_sum id Some (parse_title d)
               else if widget_type = JStr ''Box'' then map_sum id Some (parse_box d)
               else if widget_type = JStr ''Button'' then map_sum id Some (parse_button d)
               else if widget_type = JStr ''Divider'' then Inr (Some (parse_divider d))
               else if widget_type = JStr ''Caption'' then map_sum id Some (parse_caption d)
               else if widget_type = JStr ''Image'' then Inr (Some (parse_image d))
               else if widget_type = JStr ''Spacer'' then Inr (Some (parse_spacer d))
               else if widget_type = JStr ''DatePicker'' then Inr (Some (parse_datepicker d))
               else if widget_type = JStr ''Select'' then Inr (Some (parse_select d))
               else Inr (Some (Widget Text
                                 [(''value'', JStr (''Unknown widget type: '' @ py_str widget_type)),
                                  (''color'', JStr ''tertiary''),
                                  (''size'', JStr ''sm'')]
                                 [])))
      | _ \<Rightarrow> Inr None)"
| "parse_card spec =
     (case parse_children_of spec of
        Inl e \<Rightarrow> Inl e
      | Inr cs \<Rightarrow>
          (case button_row spec of
             Inl e \<Rightarrow> Inl e
           | Inr buttons \<Rightarrow>
               Inr (Widget Card
                      ([(''size'', get_or spec ''size'' (JStr ''md''))]
                       @ copy_present spec
                           [''background'', ''padding'', ''theme'', ''status'', ''collapsed'',
                            ''asForm''])
                      (cs @ buttons))))"
| "parse_row spec =
     (case parse_children_of spec of
        Inl e \<Rightarrow> Inl e
      | Inr cs \<Rightarrow>
          Inr (Widget Row
                 [(''gap'', get_or spec ''gap'' (JNum 2)),
                  (''align'', get_or spec ''align'' (JStr ''center'')),
                  (''justify'', get_or spec ''justify'' (JStr ''start''))]
                 cs))"
| "parse_col spec =
     (case parse_children_of spec of
        Inl e \<Rightarrow> Inl e
      | Inr cs \<Rightarrow>
          Inr (Widget Col
                 [(''gap'', get_or spec ''gap'' (JNum 2)),
                  (''align'', get_or spec ''align'' (JStr ''start''))]
                 cs))"
| "parse_box spec =
     (case parse_children_of spec of
        Inl e \<Rightarrow> Inl e
      | Inr cs \<Rightarrow>
          (let direction = get_or spec ''direction'' (JStr ''col'') in
           case dict_get direction_mapping direction ''col'' of
             Inl e \<Rightarrow> Inl e
           | Inr mapped \<Rightarrow>
               (let mapped_direction = (if mapped \<notin> set VALID_DIRECTIONS then ''col'' else mapped) in
                Inr (Widget Box
                       [(''padding'', get_or spec ''padding'' (JNum 0)),
                        (''gap'', get_or spec ''gap'' (JNum 0)),
                        (''direction'', JStr mapped_direction),
                        (''align'', get_or spec ''align'' (JStr ''start'')),
                        (''justify'', get_or spec ''justify'' (JStr ''start'')),
                        (''background'', get_or spec ''background'' JNull),
                        (''radius'', get_or spec ''radius'' JNull)]
                       cs))))"
| "parse_children_of spec =
     (case map_of spec ''children'' of
        None \<Rightarrow> Inr []
      | Some v \<Rightarrow>
          (case py_iter v of
             Inl e \<Rightarrow> Inl e
           | Inr child_specs \<Rightarrow> parse_child_specs child_specs))"
| "parse_child_specs [] = Inr []"
| "parse_child_specs (child_spec # rest) =
     (case parse_widget_component child_spec of
        Inl e \<Rightarrow> Inl e
      | Inr child \<Rightarrow>
          (case parse_child_specs rest of
             Inl e \<Rightarrow> Inl e
           | Inr cs \<Rightarrow> Inr (case child of Some w \<Rightarrow> w # cs | None \<Rightarrow> cs)))"
  by pat_completeness auto

termination
proof (relation "inv_image (less_than <*lex*> less_than)
    (case_sum
       (case_sum (\<lambda>spec. (spec_weight spec, 0::nat))
          (case_sum (\<lambda>spec. (3 * size (JObj spec) + 1, 0)) (\<lambda>spec. (3 * size (JObj spec) + 1, 0))))
       (case_sum
          (case_sum (\<lambda>spec. (3 * size (JObj spec) + 1, 0)) (\<lambda>spec. (3 * size (JObj spec) + 1, 0)))
          (case_sum (\<lambda>spec. (3 * size (JObj spec), 0)) (\<lambda>cs. (3 * specs_weight cs, length cs)))))",
    goal_cases)
  case 1
  show ?case by (intro wf_inv_image wf_lex_prod wf_less_than)
next
  case (10 spec v cs)
  then show ?case
    using size_map_of_less [of spec "''children''" v] specs_weight_py_iter [of v cs] by simp
next
  case (11 child_spec rest)
  then show ?case
    by (cases child_spec) (auto simp: spec_weight_def)
next
  case (12 child_spec rest)
  then show ?case
    by auto
qed (simp_all add: spec_weight_def)

declare parse_widget_component.simps [simp del] parse_card.simps [simp del]
  parse_row.simps [simp del] parse_col.simps [simp del] parse_box.simps [simp del]
  parse_children_of.simps [simp del]

text \<open>
  \<^verbatim>\<open>render_chatkit_widget_from_json\<close>: the \<^verbatim>\<open>try\<close> body returns a compiled Card as it is and
  wraps anything else, \<^verbatim>\<open>None\<close> included, in a Card without padding; the \<^verbatim>\<open>except\<close> clause
  returns the error Card.
\<close>

definition render_chatkit_widget_from_json :: "ChatKitWidgetData \<Rightarrow> widget" where
  "render_chatkit_widget_from_json data =
     (case parse_widget_component (widget_spec data) of
        Inr w \<Rightarrow>
          (case w of
             Some c \<Rightarrow>
               if widget_cls c = Card then c
               else Widget Card [(''key'', JStr (key data)), (''padding'', JNum 0)] [c]
           | None \<Rightarrow> Widget Card [(''key'', JStr (key data)), (''padding'', JNum 0)] [])
      | Inl e \<Rightarrow>
          Widget Card [(''key'', JStr (key data)), (''padding'', JNum 4)]
            [Widget Text
               [(''value'', JStr (''Error rendering widget: '' @ str_error e)),
                (''color'', JStr ''error''),
                (''weight'', JStr ''medium'')]
               []])"


section \<open>The JSON data renderer (app/json\_widget.py)\<close>











record JsonWidgetData =
  title :: string
  data :: json
  key :: string
  max_depth :: int
  show_types :: bool



section \<open>The validation reference (chatkit\_validation\_reference.py)\<close>

text \<open>
  An entry of \<^verbatim>\<open>CHATKIT_VALIDATION_RULES\<close> is either a list of permitted values or a
  descriptive string.
\<close>

datatype rule = Values "string list" | Descr string

definition CHATKIT_VALIDATION_RULES :: "(string \<times> (string \<times> rule) list) list" where
  "CHATKIT_VALIDATION_RULES =
   [(''Button'',
       [(''variant'', Values [''solid'', ''soft'', ''outline'', ''ghost'']),
        (''size'', Values [''xs'', ''sm'', ''md'', ''lg'', ''xl'']),
        (''action_param'', Descr ''onClickAction'')]),
    (''Box'',
       [(''direction'', Values [''row'', ''col'']),
        (''align'', Values [''start'', ''center'', ''end'', ''stretch'']),
        (''justify'', Values [''start'', ''center'', ''end'', ''between'', ''around'', ''evenly''])]),
    (''Text'',
       [(''size'', Values [''xs'', ''sm'', ''md'', ''lg'', ''xl'']),
        (''weight'', Values [''normal'', ''medium'', ''semibold'', ''bold'']),
        (''color'', Values [''primary'', ''secondary'', ''tertiary'', ''success'', ''warning'',
                            ''error'', ''accent'']),
        (''family'', Values [''default'', ''mono'']),
        (''style'', Values [''normal'', ''italic''])]),
    (''Card'',
       [(''size'', Values [''xs'', ''sm'', ''md'', ''lg'', ''xl'']),
        (''theme'', Values [''light'', ''dark'']),
        (''background'', Descr ''CSS background value (gradients, colors, etc.)''),
        (''padding'', Descr ''number (padding in pixels)''),
        (''status'', Values [''success'', ''warning'', ''error'']),
        (''collapsed'', Descr ''boolean''),
        (''asForm'', Descr ''boolean''),
        (''confirm'', Descr ''object with label and action''),
        (''cancel'', Descr ''object with label and action'')]),
    (''Row'',
       [(''align'', Values [''start'', ''center'', ''end'', ''stretch'']),
        (''justify'', Values [''start'', ''center'', ''end'', ''between'', ''around'', ''evenly''])]),
    (''Col'',
       [(''align'', Values [''start'', ''center'', ''end'', ''stretch'']),
        (''justify'', Values [''start'', ''center'', ''end'', ''between'', ''around'', ''evenly''])]),
    (''Caption'',
       [(''size'', Values [''xs'', ''sm'', ''md'', ''lg'', ''xl'']),
        (''weight'', Values [''normal'', ''medium'', ''semibold'', ''bold'']),
        (''color'', Values [''primary'', ''secondary'', ''tertiary'', ''success'', ''warning'',
                            ''error'', ''accent'', ''muted'']),
        (''textAlign'', Values [''left'', ''center'', ''right'', ''justify''])]),
    (''Image'',
       [(''src'', Descr ''URL string (required)''),
        (''alt'', Descr ''Alt text string''),
        (''fit'', Values [''cover'', ''contain'', ''fill'', ''scale-down'', ''none'']),
        (''position'', Values [''center'', ''top'', ''bottom'', ''left'', ''right'']),
        (''size'', Values [''xs'', ''sm'', ''md'', ''lg'', ''xl'']),
        (''radius'', Descr ''number or string''),
        (''width'', Descr ''number''),
        (''height'', Descr ''number'')]),
    (''Spacer'',
       [(''minSize'', Descr ''number (minimum space size)'')]),
    (''DatePicker'',
       [(''name'', Descr ''string (required)''),
        (''placeholder'', Descr ''string''),
        (''variant'', Values [''default'', ''outline'', ''ghost'']),
        (''size'', Values [''xs'', ''sm'', ''md'', ''lg'', ''xl'']),
        (''defaultValue'', Descr ''date string''),
        (''min'', Descr ''date string''),
        (''max'', Descr ''date string''),
        (''onChangeAction'', Descr ''action object'')]),
    (''Select'',
       [(''name'', Descr ''string (required)''),
        (''options'', Descr ''array of {label, value} objects (required)''),
        (''placeholder'', Descr ''string''),
        (''variant'', Values [''default'', ''outline'', ''ghost'']),
        (''size'', Values [''xs'', ''sm'', ''md'', ''lg'', ''xl'']),
        (''defaultValue'', Descr ''string''),
        (''onChangeAction'', Descr ''action object'')])]"

definition PARAMETER_MAPPINGS :: "(string \<times> (string \<times> string) list) list" where
  "PARAMETER_MAPPINGS =
   [(''button_variant'',
       [(''primary'', ''solid''), (''secondary'', ''outline''), (''tertiary'', ''ghost''),
        (''default'', ''solid'')]),
    (''box_direction'',
       [(''column'', ''col''), (''horizontal'', ''row''), (''vertical'', ''col''),
        (''default'', ''col'')]),
    (''text_weight'',
       [(''regular'', ''normal''), (''strong'', ''bold''), (''default'', ''normal'')])]"

text \<open>\<^verbatim>\<open>value in valid_values\<close>: list membership, or substring search in a description.\<close>

fun rule_contains :: "rule \<Rightarrow> string \<Rightarrow> bool" where
  "rule_contains (Values vs) v = (v \<in> set vs)"
| "rule_contains (Descr d) v = str_contains d v"

text \<open>Truth value of \<^verbatim>\<open>valid_values\<close>: a list or a string is false exactly when empty.\<close>

fun rule_truthy :: "rule \<Rightarrow> bool" where
  "rule_truthy (Values vs) = (vs \<noteq> [])"
| "rule_truthy (Descr d) = (d \<noteq> [])"

text \<open>
  \<^verbatim>\<open>valid_values[0]\<close>, read only after \<^verbatim>\<open>valid_values\<close> was found non-empty: the first
  member of a list, the first character of a string.
\<close>

fun rule_first :: "rule \<Rightarrow> string" where
  "rule_first (Values vs) = (case vs of [] \<Rightarrow> [] | v # _ \<Rightarrow> v)"
| "rule_first (Descr d) = take 1 d"

definition validate_and_map_parameter :: "string \<Rightarrow> string \<Rightarrow> string \<Rightarrow> string" where
  "validate_and_map_parameter widget_type param_name val =
     (let widget_rules =
            (case map_of CHATKIT_VALIDATION_RULES widget_type of Some r \<Rightarrow> r | None \<Rightarrow> []);
          valid_values =
            (case map_of widget_rules param_name of Some v \<Rightarrow> v | None \<Rightarrow> Values []);
          mapping_key = lower widget_type @ ''_'' @ param_name;
          mapped =
            (case map_of PARAMETER_MAPPINGS mapping_key of
               None \<Rightarrow> None
             | Some mapping \<Rightarrow>
                 (case map_of mapping val of
                    Some target \<Rightarrow> Some target
                  | None \<Rightarrow> map_of mapping ''default''))
      in if rule_contains valid_values val then val
         else case mapped of
                Some target \<Rightarrow> target
              | None \<Rightarrow> if rule_truthy valid_values then rule_first valid_values else val)"

text \<open>Every alias target and every member of an allow-list that the two tables declare.\<close>

definition declared_alias_targets :: "string list" where
  "declared_alias_targets = concat (map (\<lambda>(k, mapping). map snd mapping) PARAMETER_MAPPINGS)"

fun rule_members :: "rule \<Rightarrow> string list" where
  "rule_members (Values vs) = vs"
| "rule_members (Descr d) = []"

definition declared_allow_list_members :: "string list" where
  "declared_allow_list_members =
     concat (map (\<lambda>(w, rules). concat (map (\<lambda>(p, r). rule_members r) rules))
                 CHATKIT_VALIDATION_RULES)"

section \<open>Notions used in the statements\<close>

text \<open>
  A malformed node: a value that is not a dict, or a dict without a \<^verbatim>\<open>type\<close> key (the test
  that opens \<^verbatim>\<open>_parse_widget_component\<close>).
\<close>

definition malformed :: "json \<Rightarrow> bool" where
  "malformed spec = (case spec of JObj d \<Rightarrow> map_of d ''type'' = None | _ \<Rightarrow> True)"





text \<open>
  What the statements about the buttons of a Card read off a button: its class, its
  \<^verbatim>\<open>variant\<close> and its \<^verbatim>\<open>label\<close>.  \<open>expected_buttons\<close> lists these for the buttons of a Card
  spec: the Cancel button when \<^verbatim>\<open>cancel\<close> is a dict, then the Confirm button when
  \<^verbatim>\<open>confirm\<close> is a dict.
\<close>

definition button_facts :: "widget \<Rightarrow> widget_class \<times> json option \<times> json option" where
  "button_facts b = (widget_cls b, attr b ''variant'', attr b ''label'')"

definition expected_buttons ::
  "(string \<times> json) list \<Rightarrow> (widget_class \<times> json option \<times> json option) list" where
  "expected_buttons d =
     (case map_of d ''cancel'' of
        Some (JObj c) \<Rightarrow>
          [(Button, Some (JStr ''outline''), Some (get_or c ''label'' (JStr ''Cancel'')))]
      | _ \<Rightarrow> [])
     @ (case map_of d ''confirm'' of
          Some (JObj c) \<Rightarrow>
            [(Button, Some (JStr ''solid''), Some (get_or c ''label'' (JStr ''Confirm'')))]
        | _ \<Rightarrow> [])"

text \<open>
  The shape the unamended claim C4 promises for every Card with \<^verbatim>\<open>confirm\<close> or
  \<^verbatim>\<open>cancel\<close>: the last child is a Row of an outline button followed by a solid button.
\<close>

definition ends_with_cancel_confirm :: "widget \<Rightarrow> bool" where
  "ends_with_cancel_confirm w =
     (children w \<noteq> []
      \<and> widget_cls (last (children w)) = Row
      \<and> map (\<lambda>b. (widget_cls b, attr b ''variant'')) (children (last (children w)))
          = [(Button, Some (JStr ''outline'')), (Button, Some (JStr ''solid''))])"









section \<open>Properties\<close>

subsection \<open>Unfolding the compiler\<close>

lemmas leaf_parser_defs =
  parse_text_def parse_title_def parse_button_def parse_divider_def parse_caption_def
  parse_image_def parse_spacer_def parse_datepicker_def parse_select_def

lemmas dict_access_defs = has_key_def get_or_def copy_present_def

lemmas compile_simps =
  parse_widget_component.simps parse_card.simps parse_row.simps parse_col.simps
  parse_box.simps parse_children_of.simps button_row_def action_button_def
  leaf_parser_defs dict_access_defs py_get_def set_contains_def dict_get_def
  VALID_COLORS_def color_mapping_def VALID_VARIANTS_def variant_mapping_def
  VALID_DIRECTIONS_def direction_mapping_def

subsection \<open>Nodes that compile to nothing, and the loop over child specs\<close>

lemma parse_malformed: "malformed spec \<Longrightarrow> parse_widget_component spec = Inr None"
  by (cases spec) (simp_all add: malformed_def parse_widget_component.simps)

lemma map_sum_Some_neq_None [simp]: "map_sum id Some x \<noteq> Inr None"
  by (cases x) simp_all

lemma map_sum_Some_eq: "map_sum id Some x = Inr (Some w) \<longleftrightarrow> x = Inr w"
  by (cases x) auto





subsection \<open>What a spec compiles to, by its type tag\<close>


lemma leaf_cls:
  "parse_text d = Inr w \<Longrightarrow> widget_cls w = Text"
  "parse_title d = Inr w \<Longrightarrow> widget_cls w = Title"
  "parse_button d = Inr w \<Longrightarrow> widget_cls w = Button"
  "parse_caption d = Inr w \<Longrightarrow> widget_cls w = Caption"
  "widget_cls (parse_divider d) = Box"
  "widget_cls (parse_image d) = Image"
  "widget_cls (parse_spacer d) = Spacer"
  "widget_cls (parse_datepicker d) = DatePicker"
  "widget_cls (parse_select d) = Select"
  by (auto simp: leaf_parser_defs Let_def split: sum.splits option.splits if_splits)

lemma container_cls:
  "parse_card d = Inr w \<Longrightarrow> widget_cls w = Card"
  "parse_row d = Inr w \<Longrightarrow> widget_cls w = Row"
  "parse_col d = Inr w \<Longrightarrow> widget_cls w = Col"
  "parse_box d = Inr w \<Longrightarrow> widget_cls w = Box"
  by (auto simp: parse_card.simps parse_row.simps parse_col.simps parse_box.simps Let_def
      split: sum.splits)

lemma compiled_cls_Card_iff:
  assumes "parse_widget_component (JObj d) = Inr (Some w)"
  shows "widget_cls w = Card \<longleftrightarrow> map_of d ''type'' = Some (JStr ''Card'')"
  using assms
  by (auto simp: parse_widget_component.simps map_sum_Some_eq leaf_cls
      split: option.splits if_splits dest: container_cls leaf_cls(1-4))



subsection \<open>The button row of a Card\<close>

lemma action_button_facts:
  assumes "action_button v lbl var = Inr b"
  shows "\<exists>c. v = JObj c \<and> button_facts b = (Button, Some (JStr var), Some (get_or c ''label'' (JStr lbl)))"
  using assms
  by (cases v) (auto simp: action_button_def button_facts_def attr_def)

lemma button_row_shape:
  assumes "button_row d = Inr bs" and "has_key d ''confirm'' \<or> has_key d ''cancel''"
  shows "\<exists>buttons.
           bs = [Widget Row [(''justify'', JStr ''end''), (''gap'', JNum 2)] buttons]
           \<and> map button_facts buttons = expected_buttons d"
proof (cases "map_of d ''cancel''")
  case None
  note cancel = None
  with assms(2) obtain v where v: "map_of d ''confirm'' = Some v"
    by (auto simp: has_key_def)
  with assms cancel obtain b where b: "action_button v ''Confirm'' ''solid'' = Inr b"
    and bs: "bs = [Widget Row [(''justify'', JStr ''end''), (''gap'', JNum 2)] [b]]"
    by (cases "action_button v ''Confirm'' ''solid''") (simp_all add: button_row_def has_key_def)
  from action_button_facts [OF b] cancel v bs show ?thesis
    by (auto simp: expected_buttons_def)
next
  case (Some u)
  note cancel = Some
  with assms(1) obtain a where a: "action_button u ''Cancel'' ''outline'' = Inr a"
    by (cases "action_button u ''Cancel'' ''outline''") (simp_all add: button_row_def has_key_def)
  show ?thesis
  proof (cases "map_of d ''confirm''")
    case None
    with assms(1) cancel a
    have bs: "bs = [Widget Row [(''justify'', JStr ''end''), (''gap'', JNum 2)] [a]]"
      by (simp add: button_row_def has_key_def)
    from action_button_facts [OF a] cancel None bs show ?thesis
      by (auto simp: expected_buttons_def)
  next
    case (Some v)
    with assms(1) cancel a obtain b where b: "action_button v ''Confirm'' ''solid'' = Inr b"
      and bs: "bs = [Widget Row [(''justify'', JStr ''end''), (''gap'', JNum 2)] [a, b]]"
      by (cases "action_button v ''Confirm'' ''solid''") (simp_all add: button_row_def has_key_def)
    from action_button_facts [OF a] action_button_facts [OF b] cancel Some bs show ?thesis
      by (auto simp: expected_buttons_def)
  qed
qed


lemma parse_card_map_of_cong:
  assumes "map_of d' = map_of d"
  shows "parse_card d' = parse_card d"
proof -
  have "parse_children_of d' = parse_children_of d"
    using assms by (simp add: parse_children_of.simps)
  then show ?thesis
    using assms
    by (simp add: parse_card.simps button_row_def dict_access_defs
        cong: if_cong option.case_cong sum.case_cong)
qed

subsection \<open>The JSON data renderer at the depth limit\<close>




subsection \<open>The serializer keeps every string\<close>







subsection \<open>The validation reference on its list-valued rules\<close>








subsection \<open>The attributes the compiler validates\<close>










subsection \<open>Every tree the two renderers build is structurally valid\<close>





























subsection \<open>C1: the entry points always return a valid tree\<close>



subsection \<open>C2: the root wrapper\<close>

text \<open>
  C2, as amended.  \<^verbatim>\<open>render_chatkit_widget_from_json\<close> returns the compiled root as it is
  only when it is a Card, that is when the spec's type tag is \<^verbatim>\<open>"Card"\<close>.  Any other
  compiled root, a Row, Col or Box included, becomes the only child of a Card with padding 0
  and the key of the request.  So a bare Text spec yields a Card around the Text node, and a
  Card spec at the root is returned unwrapped.
\<close>

theorem root_wrapper_unwraps_card_only:
  assumes "widget_spec wd = JObj d"
    and "parse_widget_component (JObj d) = Inr (Some w)"
  shows "(map_of d ''type'' = Some (JStr ''Card'') \<longrightarrow> render_chatkit_widget_from_json wd = w)
       \<and> (map_of d ''type'' \<noteq> Some (JStr ''Card'') \<longrightarrow>
            render_chatkit_widget_from_json wd
              = Widget Card [(''key'', JStr (ChatKitWidgetData.key wd)), (''padding'', JNum 0)] [w])"
  using assms compiled_cls_Card_iff [OF assms(2)]
  by (simp add: render_chatkit_widget_from_json_def)

theorem root_wrapper_unwraps_card_only_witness:
  "render_chatkit_widget_from_json
     \<lparr>ChatKitWidgetData.title = ''t'',
      widget_spec = JObj [(''type'', JStr ''Text''), (''value'', JStr ''hello'')],
      ChatKitWidgetData.key = ''k''\<rparr>
     = Widget Card [(''key'', JStr ''k''), (''padding'', JNum 0)]
         [Widget Text
            [(''value'', JStr ''hello''), (''size'', JStr ''md''), (''weight'', JStr ''normal''),
             (''color'', JStr ''primary'')] []]
   \<and> render_chatkit_widget_from_json
       \<lparr>ChatKitWidgetData.title = ''t'',
        widget_spec = JObj [(''type'', JStr ''Card''), (''size'', JStr ''lg'')],
        ChatKitWidgetData.key = ''k''\<rparr>
     = Widget Card [(''size'', JStr ''lg'')] []"
proof -
  let ?text = "[(''type'', JStr ''Text''), (''value'', JStr ''hello'')]"
  let ?card = "[(''type'', JStr ''Card''), (''size'', JStr ''lg'')]"
  have t: "parse_widget_component (JObj ?text)
             = Inr (Some (Widget Text
                    [(''value'', JStr ''hello''), (''size'', JStr ''md''),
                     (''weight'', JStr ''normal''), (''color'', JStr ''primary'')] []))"
    by (simp add: compile_simps)
  have c: "parse_widget_component (JObj ?card) = Inr (Some (Widget Card [(''size'', JStr ''lg'')] []))"
    by (simp add: compile_simps)
  show ?thesis
    using root_wrapper_unwraps_card_only
            [of "\<lparr>ChatKitWidgetData.title = ''t'', widget_spec = JObj ?text,
                  ChatKitWidgetData.key = ''k''\<rparr>", OF _ t]
          root_wrapper_unwraps_card_only
            [of "\<lparr>ChatKitWidgetData.title = ''t'', widget_spec = JObj ?card,
                  ChatKitWidgetData.key = ''k''\<rparr>", OF _ c]
    by simp
qed

text \<open>
  The claim as stated fails for a container that is not a Card: a Row spec at the root
  compiles to a Row, and the wrapper returns a Card around it, not the Row.
\<close>

theorem row_root_is_wrapped:
  "parse_widget_component (JObj [(''type'', JStr ''Row'')])
     = Inr (Some (Widget Row
                    [(''gap'', JNum 2), (''align'', JStr ''center''), (''justify'', JStr ''start'')] []))
   \<and> render_chatkit_widget_from_json
        \<lparr>ChatKitWidgetData.title = ''t'', widget_spec = JObj [(''type'', JStr ''Row'')],
         ChatKitWidgetData.key = ''k''\<rparr>
     = Widget Card [(''key'', JStr ''k''), (''padding'', JNum 0)]
         [Widget Row
            [(''gap'', JNum 2), (''align'', JStr ''center''), (''justify'', JStr ''start'')] []]
   \<and> render_chatkit_widget_from_json
        \<lparr>ChatKitWidgetData.title = ''t'', widget_spec = JObj [(''type'', JStr ''Row'')],
         ChatKitWidgetData.key = ''k''\<rparr>
     \<noteq> Widget Row
         [(''gap'', JNum 2), (''align'', JStr ''center''), (''justify'', JStr ''start'')] []"
  by (simp add: render_chatkit_widget_from_json_def parse_widget_component.simps parse_row.simps
      parse_children_of.simps get_or_def)


subsection \<open>C3: enumerated attributes\<close>




subsection \<open>C4: the confirm and cancel buttons of a Card\<close>

text \<open>
  C4, as amended.  When a Card spec has \<^verbatim>\<open>confirm\<close> or \<^verbatim>\<open>cancel\<close> and compiles, its
  children are the compiled child specs followed by one Row (\<^verbatim>\<open>justify="end"\<close>,
  \<^verbatim>\<open>gap=2\<close>) that holds a button for each descriptor that is present: the Cancel button
  (outline) if \<^verbatim>\<open>cancel\<close> is present, then the Confirm button (solid) if \<^verbatim>\<open>confirm\<close> is
  present.  With both present the Row is Cancel, Confirm in that order.  The order of the
  keys in the source object does not matter: any reordering of the dict compiles to the same
  Card.
\<close>

theorem card_button_row:
  assumes "parse_card d = Inr w" and "has_key d ''confirm'' \<or> has_key d ''cancel''"
  shows "(\<exists>kids buttons.
            parse_children_of d = Inr kids
            \<and> children w = kids @ [Widget Row [(''justify'', JStr ''end''), (''gap'', JNum 2)] buttons]
            \<and> map button_facts buttons = expected_buttons d)
       \<and> (\<forall>d'. distinct (map fst d) \<and> distinct (map fst d') \<and> set d' = set d
              \<longrightarrow> parse_card d' = Inr w)"
proof
  from assms(1) obtain kids bs where k: "parse_children_of d = Inr kids"
    and b: "button_row d = Inr bs" and w: "children w = kids @ bs"
    by (auto simp: parse_card.simps split: sum.splits)
  from button_row_shape [OF b assms(2)] obtain buttons
    where "bs = [Widget Row [(''justify'', JStr ''end''), (''gap'', JNum 2)] buttons]"
      and "map button_facts buttons = expected_buttons d"
    by blast
  with k w
  show "\<exists>kids buttons.
            parse_children_of d = Inr kids
            \<and> children w = kids @ [Widget Row [(''justify'', JStr ''end''), (''gap'', JNum 2)] buttons]
            \<and> map button_facts buttons = expected_buttons d"
    by blast
next
  show "\<forall>d'. distinct (map fst d) \<and> distinct (map fst d') \<and> set d' = set d
              \<longrightarrow> parse_card d' = Inr w"
  proof (intro allI impI)
    fix d'
    assume "distinct (map fst d) \<and> distinct (map fst d') \<and> set d' = set d"
    then have "map_of d' = map_of d"
      by (simp add: map_of_inject_set)
    then have "parse_card d' = parse_card d"
      by (rule parse_card_map_of_cong)
    with assms(1) show "parse_card d' = Inr w"
      by simp
  qed
qed


theorem card_button_row_witness:
  "parse_card
     [(''type'', JStr ''Card''),
      (''confirm'', JObj [(''action'', JObj [(''type'', JStr ''email.send'')]),
                         (''label'', JStr ''Send email'')]),
      (''cancel'', JObj [(''label'', JStr ''Discard'')]),
      (''children'', JArr [JObj [(''type'', JStr ''Spacer'')]])]
     = Inr (Widget Card [(''size'', JStr ''md'')]
              [Widget Spacer [] [],
               Widget Row [(''justify'', JStr ''end''), (''gap'', JNum 2)]
                 [Widget Button
                    [(''label'', JStr ''Discard''), (''variant'', JStr ''outline''),
                     (''size'', JStr ''sm'')] [],
                  Widget Button
                    [(''label'', JStr ''Send email''), (''variant'', JStr ''solid''),
                     (''size'', JStr ''sm''),
                     (''onClickAction'', JObj [(''type'', JStr ''email.send'')])] []]])
   \<and> parse_card
       [(''type'', JStr ''Card''),
        (''cancel'', JObj [(''label'', JStr ''Discard'')]),
        (''children'', JArr [JObj [(''type'', JStr ''Spacer'')]]),
        (''confirm'', JObj [(''action'', JObj [(''type'', JStr ''email.send'')]),
                           (''label'', JStr ''Send email'')])]
     = Inr (Widget Card [(''size'', JStr ''md'')]
              [Widget Spacer [] [],
               Widget Row [(''justify'', JStr ''end''), (''gap'', JNum 2)]
                 [Widget Button
                    [(''label'', JStr ''Discard''), (''variant'', JStr ''outline''),
                     (''size'', JStr ''sm'')] [],
                  Widget Button
                    [(''label'', JStr ''Send email''), (''variant'', JStr ''solid''),
                     (''size'', JStr ''sm''),
                     (''onClickAction'', JObj [(''type'', JStr ''email.send'')])] []]])
   \<and> expected_buttons
       [(''type'', JStr ''Card''),
        (''confirm'', JObj [(''action'', JObj [(''type'', JStr ''email.send'')]),
                           (''label'', JStr ''Send email'')]),
        (''cancel'', JObj [(''label'', JStr ''Discard'')]),
        (''children'', JArr [JObj [(''type'', JStr ''Spacer'')]])]
     = [(Button, Some (JStr ''outline''), Some (JStr ''Discard'')),
        (Button, Some (JStr ''solid''), Some (JStr ''Send email''))]"
proof -
  let ?confirm = "JObj [(''action'', JObj [(''type'', JStr ''email.send'')]),
                        (''label'', JStr ''Send email'')]"
  let ?cancel = "JObj [(''label'', JStr ''Discard'')]"
  let ?kids = "JArr [JObj [(''type'', JStr ''Spacer'')]]"
  let ?d = "[(''type'', JStr ''Card''), (''confirm'', ?confirm), (''cancel'', ?cancel),
             (''children'', ?kids)]"
  let ?d' = "[(''type'', JStr ''Card''), (''cancel'', ?cancel), (''children'', ?kids),
              (''confirm'', ?confirm)]"
  let ?w = "Widget Card [(''size'', JStr ''md'')]
              [Widget Spacer [] [],
               Widget Row [(''justify'', JStr ''end''), (''gap'', JNum 2)]
                 [Widget Button
                    [(''label'', JStr ''Discard''), (''variant'', JStr ''outline''),
                     (''size'', JStr ''sm'')] [],
                  Widget Button
                    [(''label'', JStr ''Send email''), (''variant'', JStr ''solid''),
                     (''size'', JStr ''sm''),
                     (''onClickAction'', JObj [(''type'', JStr ''email.send'')])] []]]"
  have p: "parse_card ?d = Inr ?w"
    by (simp add: compile_simps)
  have h: "has_key ?d ''confirm'' \<or> has_key ?d ''cancel''"
    by (simp add: has_key_def)
  have o: "distinct (map fst ?d) \<and> distinct (map fst ?d') \<and> set ?d' = set ?d"
    by auto
  from card_button_row [OF p h] have "\<forall>d'. distinct (map fst ?d) \<and> distinct (map fst d') \<and> set d' = set ?d
              \<longrightarrow> parse_card d' = Inr ?w"
    by (rule conjunct2)
  with o have "parse_card ?d' = Inr ?w"
    by blast
  moreover have "expected_buttons ?d
     = [(Button, Some (JStr ''outline''), Some (JStr ''Discard'')),
        (Button, Some (JStr ''solid''), Some (JStr ''Send email''))]"
    by (simp add: expected_buttons_def get_or_def)
  ultimately show ?thesis
    using p by simp
qed

text \<open>
  The claim as stated fails when only one descriptor is present: a Card with \<^verbatim>\<open>confirm\<close>
  alone ends with a Row that holds the Confirm button and no Cancel button.
\<close>

theorem confirm_only_card_has_one_button:
  "parse_card [(''type'', JStr ''Card''), (''confirm'', JObj [])]
     = Inr (Widget Card [(''size'', JStr ''md'')]
              [Widget Row [(''justify'', JStr ''end''), (''gap'', JNum 2)]
                 [Widget Button
                    [(''label'', JStr ''Confirm''), (''variant'', JStr ''solid''),
                     (''size'', JStr ''sm'')] []]])
   \<and> \<not> ends_with_cancel_confirm
         (Widget Card [(''size'', JStr ''md'')]
            [Widget Row [(''justify'', JStr ''end''), (''gap'', JNum 2)]
               [Widget Button
                  [(''label'', JStr ''Confirm''), (''variant'', JStr ''solid''),
                   (''size'', JStr ''sm'')] []]])"
  by (simp add: compile_simps ends_with_cancel_confirm_def)

subsection \<open>C5: unknown type tags\<close>




subsection \<open>C6: malformed nodes\<close>





subsection \<open>C7: the depth limit of the JSON data renderer\<close>



subsection \<open>C8: long strings\<close>




subsection \<open>C9: a root that compiles to nothing\<close>

text \<open>
  C9.  When the spec is not a dict or has no \<^verbatim>\<open>type\<close> key, the compiled root is
  \<^verbatim>\<open>None\<close> and \<^verbatim>\<open>render_chatkit_widget_from_json\<close> returns a Card with padding 0, the
  key of the request and no children: not the error Card, and no exception.
\<close>

theorem empty_card_for_null_root:
  "malformed (widget_spec d) \<Longrightarrow>
     render_chatkit_widget_from_json d
       = Widget Card [(''key'', JStr (ChatKitWidgetData.key d)), (''padding'', JNum 0)] []"
  by (simp add: render_chatkit_widget_from_json_def parse_malformed)


theorem empty_card_for_null_root_witness:
  "malformed (JObj [(''value'', JStr ''x'')])
   \<and> malformed (JArr [])
   \<and> render_chatkit_widget_from_json
        \<lparr>ChatKitWidgetData.title = ''t'', widget_spec = JObj [(''value'', JStr ''x'')],
         ChatKitWidgetData.key = ''k''\<rparr>
     = Widget Card [(''key'', JStr ''k''), (''padding'', JNum 0)] []
   \<and> render_chatkit_widget_from_json
        \<lparr>ChatKitWidgetData.title = ''t'', widget_spec = JArr [],
         ChatKitWidgetData.key = ''k''\<rparr>
     = Widget Card [(''key'', JStr ''k''), (''padding'', JNum 0)] []"
proof -
  have a: "malformed (JObj [(''value'', JStr ''x'')])" and b: "malformed (JArr [])"
    by (simp_all add: malformed_def)
  show ?thesis
    using a b
      empty_card_for_null_root
        [of "\<lparr>ChatKitWidgetData.title = ''t'', widget_spec = JObj [(''value'', JStr ''x'')],
              ChatKitWidgetData.key = ''k''\<rparr>"]
      empty_card_for_null_root
        [of "\<lparr>ChatKitWidgetData.title = ''t'', widget_spec = JArr [],
              ChatKitWidgetData.key = ''k''\<rparr>"]
    by simp
qed

subsection \<open>C10: a description taken for an allow-list\<close>

text \<open>
  C10.  \<^verbatim>\<open>validate_and_map_parameter('Card', 'background', 'red')\<close> returns \<^verbatim>\<open>'C'\<close>: the
  rule for a Card's background is a description, \<^verbatim>\<open>'red'\<close> is not a substring of it, no
  mapping is declared for \<^verbatim>\<open>card_background\<close>, and the fallback branch returns the first
  character of the description.  That result is not the supplied value, not an alias target
  and not a member of any allow-list.
\<close>

theorem validate_and_map_parameter_descr_first_char:
  "validate_and_map_parameter ''Card'' ''background'' ''red'' = ''C''
   \<and> ''C'' \<noteq> ''red''
   \<and> ''C'' \<notin> set declared_alias_targets
   \<and> ''C'' \<notin> set declared_allow_list_members"
  by (simp add: validate_and_map_parameter_def CHATKIT_VALIDATION_RULES_def
      PARAMETER_MAPPINGS_def lower_def lower_char_def declared_alias_targets_def
      declared_allow_list_members_def)

end
